theory Spec2Isabelle
  imports Complex_Main "HOL-Library.Sublist"
begin

section \<open>Text\<close>

text \<open>
  A Python \<open>str\<close> is a sequence of Unicode code points, so a text is a list of code
  point numbers; \<open>lit\<close> turns an ASCII literal into such a list, and a character outside
  ASCII in a literal of the source is written as its code point.
\<close>

type_synonym codepoint = nat
type_synonym pystr = "codepoint list"

definition lit :: "string \<Rightarrow> pystr" where
  "lit s = map of_char s"


text \<open>
  \<open>str.lower()\<close>. On the code points up to U+00FF it maps \<open>A\<close>..\<open>Z\<close> and the
  capital letters U+00C0..U+00DE (the multiplication sign U+00D7 is not a letter) to the
  code point 32 places higher and leaves every other one alone. Above U+00FF CPython
  consults the Unicode character database, which is not part of the program: such a code
  point is left as it is here.
\<close>

definition lower_cp :: "codepoint \<Rightarrow> codepoint" where
  "lower_cp c =
     (if (65 \<le> c \<and> c \<le> 90) \<or> (192 \<le> c \<and> c \<le> 222 \<and> c \<noteq> 215) then c + 32 else c)"

definition py_lower :: "pystr \<Rightarrow> pystr" where
  "py_lower s = map lower_cp s"

text \<open>
  \<open>str.strip()\<close> without argument removes the leading and trailing white space, the
  characters for which \<open>str.isspace\<close> holds: U+0009..U+000D, U+001C..U+0020, U+0085,
  U+00A0, U+1680, U+2000..U+200A, U+2028, U+2029, U+202F, U+205F and U+3000.
\<close>

definition is_space :: "codepoint \<Rightarrow> bool" where
  "is_space c \<longleftrightarrow>
     (9 \<le> c \<and> c \<le> 13) \<or> (28 \<le> c \<and> c \<le> 32) \<or> c = 133 \<or> c = 160 \<or> c = 5760
     \<or> (8192 \<le> c \<and> c \<le> 8202) \<or> c = 8232 \<or> c = 8233 \<or> c = 8239 \<or> c = 8287
     \<or> c = 12288"

definition py_strip :: "pystr \<Rightarrow> pystr" where
  "py_strip s = rev (dropWhile is_space (rev (dropWhile is_space s)))"

text \<open>\<open>s.startswith(p)\<close> and the substring test \<open>w in s\<close>.\<close>

definition startswith :: "pystr \<Rightarrow> pystr \<Rightarrow> bool" where
  "startswith s p = prefix p s"

definition contains :: "pystr \<Rightarrow> pystr \<Rightarrow> bool" where
  "contains s w = sublist w s"

text \<open>\<open>sep.join(xs)\<close>.\<close>

fun py_join :: "pystr \<Rightarrow> pystr list \<Rightarrow> pystr" where
  "py_join sep [] = []"
| "py_join sep [x] = x"
| "py_join sep (x # y # ys) = x @ sep @ py_join sep (y # ys)"

section \<open>Conversation memory\<close>

text \<open>
  \<open>convo\<close> is a module-level dict from the sender id to the list of turns; every
  function that mutates it takes the dict and returns the new one. A turn is the dict
  \<open>{"role": role, "text": text}\<close> (the field \<open>text\<close> is named \<open>turn_text\<close> here).
\<close>

record turn =
  role :: pystr
  turn_text :: pystr

type_synonym store = "pystr \<rightharpoonup> turn list"

definition MAX_TURNS :: nat where
  "MAX_TURNS = 10"

text \<open>\<open>convo.get(psid, [])\<close>, the only way the program reads a history.\<close>

definition history :: "store \<Rightarrow> pystr \<Rightarrow> turn list" where
  "history convo psid = (case convo psid of None \<Rightarrow> [] | Some ts \<Rightarrow> ts)"

text \<open>
  The slice \<open>xs[-n:]\<close>: it starts \<open>n\<close> places before the end, or at the beginning when
  the list is shorter; \<open>xs[-0:]\<close> is \<open>xs[0:]\<close>, the whole list.
\<close>

definition slice_last :: "nat \<Rightarrow> 'a list \<Rightarrow> 'a list" where
  "slice_last n xs = (if n = 0 then xs else drop (length xs - n) xs)"

definition remember :: "store \<Rightarrow> pystr \<Rightarrow> pystr \<Rightarrow> pystr \<Rightarrow> store" where
  "remember convo psid r t =
     (let appended = history convo psid @ [\<lparr>role = r, turn_text = t\<rparr>]
      in convo(psid \<mapsto>
           (if length appended > MAX_TURNS * 2
            then slice_last (MAX_TURNS * 2) appended
            else appended)))"

definition reset_memory :: "store \<Rightarrow> pystr \<Rightarrow> store" where
  "reset_memory convo psid = convo(psid := None)"

text \<open>A sequence of calls of \<open>remember\<close>, each given as (sender id, role, text).\<close>

fun remember_all :: "store \<Rightarrow> (pystr \<times> pystr \<times> pystr) list \<Rightarrow> store" where
  "remember_all convo [] = convo"
| "remember_all convo ((psid, r, t) # ops) = remember_all (remember convo psid r t) ops"

text \<open>The turns that a sequence of calls appends for one sender, in call order.\<close>

fun appended_for :: "pystr \<Rightarrow> (pystr \<times> pystr \<times> pystr) list \<Rightarrow> turn list" where
  "appended_for u [] = []"
| "appended_for u ((psid, r, t) # ops) =
     (if psid = u then \<lparr>role = r, turn_text = t\<rparr> # appended_for u ops else appended_for u ops)"

section \<open>Intent classifier\<close>

text \<open>
  The three keyword lists are the list literals of \<open>intent\<close>, in the order of the source;
  \<open>any(w in txt for w in ws)\<close> is \<open>list_ex\<close>.
\<close>

definition cutoff_keywords :: "pystr list" where
  "cutoff_keywords = [lit ''cut-off'', lit ''cutoff'', lit ''pamutol'']"

definition billing_keywords :: "pystr list" where
  "billing_keywords = [lit ''bill'', lit ''payment'', lit ''balance'']"

definition outage_keywords :: "pystr list" where
  "outage_keywords = [lit ''outage'', lit ''brownout'', lit ''no power'', lit ''power situation'']"

definition intent :: "pystr \<Rightarrow> pystr" where
  "intent msg =
     (let txt = py_lower msg in
      if list_ex (contains txt) cutoff_keywords then lit ''cutoff''
      else if list_ex (contains txt) billing_keywords then lit ''billing''
      else if list_ex (contains txt) outage_keywords then lit ''outage''
      else lit ''general'')"

section \<open>Safe SQL helper\<close>

text \<open>
  Exceptions are values. \<open>External\<close> stands for an exception raised by a collaborator that
  is not part of the program (pyodbc, the embedding and chat endpoints, FAISS, the JSON
  decoder) and carries its message; the other constructors are the built-in exceptions
  that the program's own statements raise. \<open>py_str\<close> is \<open>str(e)\<close>, which is what the
  f-string \<open>f"{e}"\<close> prints: the message, and for a \<open>KeyError\<close> the \<open>repr\<close> of the key.
\<close>

datatype error =
    ValueError pystr
  | TypeError pystr
  | KeyError pystr
  | AttributeError pystr
  | IndexError pystr
  | External pystr

fun py_str :: "error \<Rightarrow> pystr" where
  "py_str (ValueError m) = m"
| "py_str (TypeError m) = m"
| "py_str (KeyError k) = lit [CHR 0x27] @ k @ lit [CHR 0x27]"
| "py_str (AttributeError m) = m"
| "py_str (IndexError m) = m"
| "py_str (External m) = m"

text \<open>
  What a call does to the database connection is kept as a list of events, in the order
  in which they happen: \<open>Connected\<close> when \<open>get_db_conn()\<close> has returned a connection,
  \<open>Executed sql\<close> when \<open>cur.execute(sql)\<close> has run the statement, \<open>CursorClosed\<close> for
  \<open>cur.close()\<close> and \<open>ConnClosed\<close> for \<open>conn.close()\<close>.
\<close>

datatype db_event = Connected | Executed pystr | CursorClosed | ConnClosed

text \<open>
  The database as the call meets it. Each field tells how one pyodbc call answers:
  \<open>Some m\<close> in a \<open>_fails\<close> field is the message of the exception that the call raises.
  \<open>description\<close> gives the column names (the first component of each entry of
  \<open>cur.description\<close>) after the statement has run, or \<open>None\<close> when the statement has no
  result set; \<open>fetchall\<close> gives the rows. The two \<open>close\<close> calls are taken not to raise.
\<close>

record 'v db =
  connect_fails :: "pystr option"
  cursor_fails :: "pystr option"
  execute_fails :: "pystr \<Rightarrow> pystr option"
  description :: "pystr \<Rightarrow> pystr list option"
  fetchall :: "pystr \<Rightarrow> pystr + 'v list list"

text \<open>\<open>dict(zip(cols, row))\<close>: the shorter list bounds the pairs, a repeated column keeps its
  last value.\<close>

definition dict_zip :: "pystr list \<Rightarrow> 'v list \<Rightarrow> (pystr \<rightharpoonup> 'v)" where
  "dict_zip cols row = Map.empty (cols [\<mapsto>] row)"

definition only_select :: pystr where
  "only_select = lit ''Only SELECT queries are allowed.''"

definition execute_sql :: "'v db \<Rightarrow> pystr \<Rightarrow> db_event list \<times> (error + (pystr \<rightharpoonup> 'v) list)" where
  "execute_sql d sql =
     (let sql_clean = py_lower (py_strip sql) in
      if \<not> startswith sql_clean (lit ''select'') then ([], Inl (ValueError only_select))
      else case connect_fails d of
        Some m \<Rightarrow> ([], Inl (External m))
      | None \<Rightarrow>
      (case cursor_fails d of
        Some m \<Rightarrow> ([Connected], Inl (External m))
      | None \<Rightarrow>
      (case execute_fails d sql of
        Some m \<Rightarrow> ([Connected], Inl (External m))
      | None \<Rightarrow>
      (case description d sql of
        None \<Rightarrow> ([Connected, Executed sql],
                  Inl (TypeError (lit [CHR 0x27] @ lit ''NoneType'' @ lit [CHR 0x27]
                                   @ lit '' object is not iterable'')))
      | Some cols \<Rightarrow>
      (case fetchall d sql of
        Inl m \<Rightarrow> ([Connected, Executed sql], Inl (External m))
      | Inr rows \<Rightarrow>
          ([Connected, Executed sql, CursorClosed, ConnClosed],
           Inr (map (dict_zip cols) rows)))))))"

section \<open>Retrieval from the knowledge base\<close>

text \<open>
  An embedding is a one-dimensional numpy array of \<open>float32\<close> values. The values and
  numpy's arithmetic on them are not part of the program, and what numpy computes is a
  rounded result, not the exact one: the type \<open>'f\<close> of the values is left open and the
  operations that \<open>top_chunks\<close> applies are the fields of a record. \<open>f32_dot\<close> is
  \<open>np.dot\<close> on two one-dimensional arrays of the same length, \<open>f32_norm\<close> is
  \<open>np.linalg.norm\<close>, \<open>f32_mul\<close> and \<open>f32_div\<close> are \<open>*\<close> and \<open>/\<close> on two scalars, and
  \<open>f32_ge_threshold\<close> is the test \<open>cos >= 0.45\<close> of a scalar against the Python float.
\<close>

record 'f float32 =
  f32_dot :: "'f list \<Rightarrow> 'f list \<Rightarrow> 'f"
  f32_norm :: "'f list \<Rightarrow> 'f"
  f32_mul :: "'f \<Rightarrow> 'f \<Rightarrow> 'f"
  f32_div :: "'f \<Rightarrow> 'f \<Rightarrow> 'f"
  f32_ge_threshold :: "'f \<Rightarrow> bool"

text \<open>\<open>np.dot\<close> raises a \<open>ValueError\<close> when the two shapes differ.\<close>

definition np_dot :: "'f float32 \<Rightarrow> 'f list \<Rightarrow> 'f list \<Rightarrow> error + 'f" where
  "np_dot np a b =
     (if length a = length b then Inr (f32_dot np a b)
      else Inl (ValueError (lit ''shapes not aligned'')))"

text \<open>Indexing a Python list: a negative index counts from the end, an index outside the
  list raises \<open>IndexError\<close>.\<close>

definition py_index :: "'a list \<Rightarrow> int \<Rightarrow> error + 'a" where
  "py_index xs i =
     (if 0 \<le> i \<and> i < int (length xs) then Inr (xs ! nat i)
      else if i < 0 \<and> - int (length xs) \<le> i then Inr (xs ! nat (int (length xs) + i))
      else Inl (IndexError (lit ''list index out of range'')))"

text \<open>
  The knowledge base is built when the module is loaded: \<open>knowledge_chunks\<close> is the list
  of texts of the source, \<open>vectors\<close> their embeddings as the embedding endpoint returned
  them. \<open>embed\<close> is the embedding request for a query and \<open>faiss_search\<close> is
  \<open>faiss_idx.search\<close> on that one query, giving the rows \<open>I[0]\<close> and \<open>D[0]\<close>; \<open>Inl m\<close> is
  an exception with message \<open>m\<close>. \<open>numpy\<close> is the arithmetic at work.
\<close>

record 'f kb =
  knowledge_chunks :: "pystr list"
  vectors :: "'f list list"
  embed :: "pystr \<Rightarrow> pystr + 'f list"
  faiss_search :: "'f list \<Rightarrow> nat \<Rightarrow> pystr + (int list \<times> 'f list)"
  numpy :: "'f float32"

text \<open>The loop \<open>for idx, dist in zip(I[0], D[0])\<close>, with \<open>out\<close> as accumulator (\<open>dist\<close> is
  \<open>d2\<close> here, \<open>cos\<close> is \<open>similarity\<close>).\<close>

fun collect :: "'f kb \<Rightarrow> 'f list \<Rightarrow> (int \<times> 'f) list \<Rightarrow> pystr list \<Rightarrow> error + pystr list" where
  "collect b qvec [] out = Inr out"
| "collect b qvec ((idx, d2) # rest) out =
     (if idx = - 1 then collect b qvec rest out
      else case py_index (vectors b) idx of
        Inl e \<Rightarrow> Inl e
      | Inr v \<Rightarrow>
      (case np_dot (numpy b) v qvec of
        Inl e \<Rightarrow> Inl e
      | Inr d \<Rightarrow>
          (let similarity =
                 f32_div (numpy b) d
                   (f32_mul (numpy b) (f32_norm (numpy b) v) (f32_norm (numpy b) qvec))
           in if f32_ge_threshold (numpy b) similarity
           then (case py_index (knowledge_chunks b) idx of
                   Inl e \<Rightarrow> Inl e
                 | Inr c \<Rightarrow> collect b qvec rest (out @ [c]))
           else collect b qvec rest out)))"

definition top_chunks :: "'f kb \<Rightarrow> pystr \<Rightarrow> nat \<Rightarrow> error + pystr list" where
  "top_chunks b query k =
     (case embed b query of
        Inl m \<Rightarrow> Inl (External m)
      | Inr qvec \<Rightarrow>
      (case faiss_search b qvec k of
        Inl m \<Rightarrow> Inl (External m)
      | Inr (I, D) \<Rightarrow> collect b qvec (zip I D) []))"




section \<open>The binary32 arithmetic\<close>

text \<open>
  The arithmetic of IEEE 754 binary32, the \<open>float32\<close> of numpy, on the finite values of
  the normal range, each taken as the real number it denotes: every operation gives the
  exact result rounded to the nearest number with a significand of 24 bits, a tie going to
  the even significand. \<open>rne\<close> rounds to the nearest integer in that way and \<open>round32\<close>
  to the nearest binary32 number; overflow, subnormal numbers, infinities and NaN are left
  out. The dot product adds the rounded products one after the other, and the norm is
  the rounded square root of the dot product of the array with itself, as
  \<open>np.linalg.norm\<close> computes it; the order in which numpy adds is not fixed, and the
  examples use arrays on which every product and every partial sum is exact, so that the
  order has no effect. The test \<open>cos >= 0.45\<close> compares with the Python float 0.45, and
  no binary32 number lies between that and the real number 0.45.
\<close>

definition rne :: "real \<Rightarrow> int" where
  "rne x =
     (let f = \<lfloor>x\<rfloor>; d = x - of_int f
      in if d < 1 / 2 then f else if 1 / 2 < d then f + 1 else if even f then f else f + 1)"

definition round32 :: "real \<Rightarrow> real" where
  "round32 x =
     (if x = 0 then 0
      else let e = \<lfloor>log 2 \<bar>x\<bar>\<rfloor> - 23 in of_int (rne (x / 2 powr of_int e)) * 2 powr of_int e)"

definition binary32 :: "real float32" where
  "binary32 =
     \<lparr>f32_dot = (\<lambda>a b. foldl (\<lambda>s (x, y). round32 (s + round32 (x * y))) 0 (zip a b)),
      f32_norm = (\<lambda>a. round32 (sqrt (foldl (\<lambda>s x. round32 (s + round32 (x * x))) 0 a))),
      f32_mul = (\<lambda>x y. round32 (x * y)),
      f32_div = (\<lambda>x y. round32 (x / y)),
      f32_ge_threshold = (\<lambda>x. 0.45 \<le> x)\<rparr>"

section \<open>Reply generation\<close>

text \<open>
  The chat endpoint. A request carries the list of messages and, in the first request of a
  turn, the declaration of the function \<open>execute_sql\<close> (\<open>functions=[sql_function]\<close>,
  \<open>function_call="auto"\<close>): the flag of \<open>ModelRequest\<close> and of \<open>chat_create\<close> tells
  whether it is declared. A message of the request is a plain one with role and content,
  the assistant's function call echoed back, or the result of the function. The answer,
  \<open>resp.choices[0].message\<close>, has a content or a function call or both; \<open>Inl m\<close> is an
  exception of the endpoint with message \<open>m\<close>.
\<close>

record fcall =
  fc_name :: pystr
  arguments :: pystr

datatype message = Msg pystr pystr | CallMsg fcall | FunctionMsg pystr pystr

record response =
  content :: "pystr option"
  function_call :: "fcall option"

text \<open>
  What \<open>json.loads\<close> makes of the arguments of a function call, as far as the program
  looks at it: an object, whose members are strings or other values, or a value that is
  not an object. \<open>JOther\<close> carries the message of the \<open>AttributeError\<close> that \<open>.strip()\<close>
  raises on the value, \<open>JNotDict\<close> the message of the \<open>TypeError\<close> that subscripting the
  value with a string raises.
\<close>

datatype jvalue = JStr pystr | JOther pystr

datatype jargs = JDict "pystr \<rightharpoonup> jvalue" | JNotDict pystr

text \<open>The events of a turn: those of the database connection and the requests sent to the
  chat endpoint.\<close>

datatype event = Db db_event | ModelRequest "message list" bool

text \<open>The collaborators of \<open>generate_reply\<close>; \<open>json_dumps\<close> is
  \<open>json.dumps(result, default=str)\<close>.\<close>

record ('f, 'v) env =
  kbase :: "'f kb"
  database :: "'v db"
  chat_create :: "message list \<Rightarrow> bool \<Rightarrow> pystr + response"
  json_loads :: "pystr \<Rightarrow> pystr + jargs"
  json_dumps :: "(pystr \<rightharpoonup> 'v) list \<Rightarrow> pystr"

text \<open>The state that a turn changes: the conversation memory and the events so far.\<close>

record world =
  convo :: store
  trace :: "event list"

text \<open>The canned replies, code point for code point.\<close>

definition cutoff_reply :: pystr where
  "cutoff_reply = concat
     [lit ''Here are the scheduled cut-off dates ('',
      [8220],
      lit ''Petsa sa Pamutol'',
      [8221],
      lit '') by area:'',
      [10],
      lit ''  '',
      [8226],
      lit '' Asturias '',
      [8211],
      lit '' 4th of the month  '',
      [10],
      lit ''  '',
      [8226],
      lit '' Balamban '',
      [8211],
      lit '' 8th of the month  '',
      [10],
      lit ''  '',
      [8226],
      lit '' Aloguinsan '',
      [8211],
      lit '' 10th of the month  '',
      [10],
      lit ''  '',
      [8226],
      lit '' Pinamungajan '',
      [8211],
      lit '' 12th of the month  '',
      [10],
      lit ''  '',
      [8226],
      lit '' Cebu City Areas '',
      [8211],
      lit '' 12th of the month  '',
      [10],
      lit ''  '',
      [8226],
      lit '' Special Bills '',
      [8211],
      lit '' 14th of the month  '',
      [10],
      lit ''  '',
      [8226],
      lit '' Lutopan '',
      [8211],
      lit '' 24th of the month  '',
      [10],
      lit ''  '',
      [8226],
      lit '' Toledo City '',
      [8211],
      lit '' 27th of the month  '',
      [10, 10],
      lit ''*Payments not received* by the cut-off date will result in'',
      lit '' service suspension plus a 2% monthly surcharge.  '',
      [10],
      lit ''However, per the ERC'',
      [8217],
      lit ''s Magna Carta for Residential Electricity Consumers (Res.'',
      lit '' 12-09), CEBECO III *must* suspend any disconnection if:'',
      [10],
      lit ''  1. A customer'',
      [8217],
      lit ''s household has someone on life-support equipment (medical'',
      lit '' cert. required).  '',
      [10],
      lit ''  2. A funeral wake is being held on the premises.  '',
      [10],
      lit ''  3. The customer never received the Final Disconnection'',
      lit '' Notice (FDN).  '',
      [10],
      lit ''  4. A billing error charged multiple months at once.  '',
      [10],
      lit ''  5. The customer settles the current bill within 24 hours'',
      lit '' of the first cut-off attempt (once per billing cycle).  '',
      [10, 10],
      lit ''And *no disconnections* may occur on:'',
      [10],
      lit ''  '',
      [8211],
      lit '' Fridays, weekends, national/local holidays, or the day'',
      lit '' before these.  '',
      [10],
      lit ''  '',
      [8211],
      lit '' Holy Week (Maundy Thursday through Easter Sunday).  '',
      [10],
      lit ''  '',
      [8211],
      lit '' Any ERC-declared moratorium days (e.g. grid emergencies,'',
      lit '' public calamities).  '',
      [10, 10],
      lit ''Registered senior citizens, PWDs, or life-support'',
      lit '' households also get an automatic 30-day extension after'',
      lit '' the FDN.'']"

definition billing_reply :: pystr where
  "billing_reply = concat
     [lit ''To check your current balance please send your Consumer ID.'',
      [10],
      lit ''Payments can be made via GCash '',
      [8594],
      lit '' Bills '',
      [8594],
      lit '' CEBECO III, Palawan Pawnshop, 7-Eleven CliQQ or at any'',
      lit '' area office.'']"

definition outage_reply :: pystr where
  "outage_reply = concat
     [lit ''For outage reports please include your complete address and'',
      lit '' Consumer ID. Current grid advisory: see Power-Situation'',
      lit '' bulletins on our FB page. You may also call our 24'',
      [215],
      lit ''7 hotline (032) 467-9-112.'']"

definition system_prompt :: "pystr list \<Rightarrow> pystr" where
  "system_prompt chunks = concat
     [lit ''You are the CEBECO3 assistant. You have a knowledge base'',
      lit '' and can call execute_sql(sql) to fetch system'',
      [8208],
      lit ''loss data from TSD.SystemLoss.'',
      [10, 10],
      lit ''Knowledge Base:'',
      [10]]
     @ py_join [10] chunks"

text \<open>The prefix of the f-string \<open>"... SQL error: {e}"\<close>, which begins with the warning sign
  U+26A0 U+FE0F.\<close>

definition sql_error_prefix :: pystr where
  "sql_error_prefix = [9888, 65039] @ lit '' SQL error: ''"

text \<open>The list \<open>messages\<close>: the system message, the stored turns of the sender, the new
  user message.\<close>

definition compose :: "store \<Rightarrow> pystr \<Rightarrow> pystr \<Rightarrow> pystr list \<Rightarrow> message list" where
  "compose cv psid user_msg chunks =
     [Msg (lit ''system'') (system_prompt chunks)]
     @ map (\<lambda>t. Msg (role t) (turn_text t)) (history cv psid)
     @ [Msg (lit ''user'') user_msg]"

text \<open>
  The expression \<open>execute_sql(args["sql"])\<close>: the subscript raises \<open>TypeError\<close> when
  \<open>args\<close> is no dict and \<open>KeyError\<close> when the key is missing, and \<open>sql.strip()\<close> raises
  \<open>AttributeError\<close> when the member is no string.
\<close>

definition call_gateway :: "('f, 'v) env \<Rightarrow> jargs \<Rightarrow> db_event list \<times> (error + (pystr \<rightharpoonup> 'v) list)" where
  "call_gateway env args =
     (case args of
        JNotDict m \<Rightarrow> ([], Inl (TypeError m))
      | JDict members \<Rightarrow>
          (case members (lit ''sql'') of
             None \<Rightarrow> ([], Inl (KeyError (lit ''sql'')))
           | Some (JOther m) \<Rightarrow> ([], Inl (AttributeError m))
           | Some (JStr sql) \<Rightarrow> execute_sql (database env) sql))"

text \<open>\<open>x.content.strip()\<close>: a content that is \<open>None\<close> has no \<open>strip\<close>.\<close>

definition content_strip :: "response \<Rightarrow> error + pystr" where
  "content_strip x =
     (case content x of
        None \<Rightarrow> Inl (AttributeError (lit [CHR 0x27] @ lit ''NoneType'' @ lit [CHR 0x27]
                  @ lit '' object has no attribute '' @ lit [CHR 0x27] @ lit ''strip''
                  @ lit [CHR 0x27]))
      | Some s \<Rightarrow> Inr (py_strip s))"

text \<open>
  The part of \<open>generate_reply\<close> from \<open>chunks = top_chunks(user_msg)\<close> to the point where
  \<open>answer\<close> is set: it gives the events it caused and the answer, or the exception that
  leaves it. \<open>cv\<close> is \<open>convo\<close> as it is then, the user message already stored. The
  \<open>try\<close> encloses \<open>execute_sql(args["sql"])\<close> alone; \<open>except Exception\<close> catches every
  exception raised there.
\<close>

definition answer_general ::
  "('f, 'v) env \<Rightarrow> store \<Rightarrow> pystr \<Rightarrow> pystr \<Rightarrow> event list \<times> (error + pystr)" where
  "answer_general env cv psid user_msg =
     (case top_chunks (kbase env) user_msg 3 of
        Inl e \<Rightarrow> ([], Inl e)
      | Inr chunks \<Rightarrow>
      (let messages = compose cv psid user_msg chunks;
           ev1 = [ModelRequest messages True]
       in case chat_create env messages True of
        Inl m \<Rightarrow> (ev1, Inl (External m))
      | Inr msg \<Rightarrow>
      (case function_call msg of
        None \<Rightarrow> (ev1, content_strip msg)
      | Some fc \<Rightarrow>
      (case json_loads env (arguments fc) of
        Inl m \<Rightarrow> (ev1, Inl (External m))
      | Inr args \<Rightarrow>
      (case call_gateway env args of
        (dbev, Inl e) \<Rightarrow> (ev1 @ map Db dbev, Inr (sql_error_prefix @ py_str e))
      | (dbev, Inr result) \<Rightarrow>
      (let messages2 = messages
             @ [CallMsg fc, FunctionMsg (lit ''execute_sql'') (json_dumps env result)];
           ev2 = ev1 @ map Db dbev @ [ModelRequest messages2 False]
       in case chat_create env messages2 False of
        Inl m \<Rightarrow> (ev2, Inl (External m))
      | Inr followup \<Rightarrow> (ev2, content_strip followup)))))))"

definition generate_reply ::
  "('f, 'v) env \<Rightarrow> world \<Rightarrow> pystr \<Rightarrow> pystr \<Rightarrow> (error + pystr) \<times> world" where
  "generate_reply env w psid user_msg =
     (let w1 = w\<lparr>convo := remember (convo w) psid (lit ''user'') user_msg\<rparr> in
      if intent user_msg = lit ''cutoff'' then (Inr cutoff_reply, w1)
      else if intent user_msg = lit ''billing'' then (Inr billing_reply, w1)
      else if intent user_msg = lit ''outage'' then (Inr outage_reply, w1)
      else case answer_general env (convo w1) psid user_msg of
        (evs, Inl e) \<Rightarrow> (Inl e, w1\<lparr>trace := trace w1 @ evs\<rparr>)
      | (evs, Inr answer) \<Rightarrow>
          (Inr answer,
           w1\<lparr>convo := remember (convo w1) psid (lit ''assistant'') answer,
              trace := trace w1 @ evs\<rparr>))"


section \<open>Example environments\<close>

text \<open>A database that is up and answers every statement with one column and no row.\<close>

definition db_up :: "int db" where
  "db_up = \<lparr>connect_fails = None, cursor_fails = None, execute_fails = (\<lambda>sql. None),
            description = (\<lambda>sql. Some [lit ''SystemLoss'']), fetchall = (\<lambda>sql. Inr [])\<rparr>"

text \<open>A database that is up and in which the statement names a table that does not exist:
  \<open>cur.execute\<close> raises.\<close>

definition db_no_table :: "int db" where
  "db_no_table = \<lparr>connect_fails = None, cursor_fails = None,
                  execute_fails = (\<lambda>sql. Some (lit ''Invalid object name'')),
                  description = (\<lambda>sql. None), fetchall = (\<lambda>sql. Inr [])\<rparr>"

text \<open>A knowledge base of two chunks with orthogonal unit vectors, in binary32
  arithmetic; every query is embedded as the first of them, and the index answers with
  both positions and one padding label, whose distance is the largest float32.\<close>

definition kb_two :: "real kb" where
  "kb_two = \<lparr>knowledge_chunks = [lit ''System Loss is energy lost in the lines.'',
                                  lit ''Office hours are 8 to 5.''],
             vectors = [[1, 0], [0, 1]],
             embed = (\<lambda>query. Inr [1, 0]),
             faiss_search = (\<lambda>qvec k. Inr ([0, 1, - 1], [0, 2, 340282346638528859811704183484516925440])),
             numpy = binary32\<rparr>"

text \<open>Two messages: one with a cutoff keyword, one with no keyword.\<close>

definition balamban_question :: pystr where
  "balamban_question = lit ''What'' @ lit [CHR 0x27] @ lit ''s the cut-off date for Balamban?''"

definition loss_question :: pystr where
  "loss_question = lit ''How many kWh loss last month?''"

text \<open>
  An environment in which the model, when the function is declared, elects it with the
  arguments \<open>{"sql": "delete from TSD.SystemLoss"}\<close>, and otherwise answers in text.
\<close>

definition tool_arguments :: pystr where
  "tool_arguments = lit ''{'' @ [34] @ lit ''sql'' @ [34] @ lit '': '' @ [34]
     @ lit ''delete from TSD.SystemLoss'' @ [34] @ lit ''}''"

definition env_tool :: "(real, int) env" where
  "env_tool =
     \<lparr>kbase = kb_two, database = db_up,
      chat_create = (\<lambda>msgs declared.
        if declared
        then Inr \<lparr>content = None,
                  function_call = Some \<lparr>fc_name = lit ''execute_sql'', arguments = tool_arguments\<rparr>\<rparr>
        else Inr \<lparr>content = Some (lit ''There is no data.''), function_call = None\<rparr>),
      json_loads = (\<lambda>s. Inr (JDict [lit ''sql'' \<mapsto> JStr (lit ''delete from TSD.SystemLoss'')])),
      json_dumps = (\<lambda>rows. lit ''[]'')\<rparr>"

text \<open>The same with the embedding endpoint unreachable, and with the chat endpoint
  unreachable.\<close>

definition env_embed_down :: "(real, int) env" where
  "env_embed_down = env_tool\<lparr>kbase := kb_two\<lparr>embed := (\<lambda>query. Inl (lit ''Connection error.''))\<rparr>\<rparr>"

definition env_chat_down :: "(real, int) env" where
  "env_chat_down = env_tool\<lparr>chat_create := (\<lambda>msgs declared. Inl (lit ''Connection error.''))\<rparr>"

definition w0 :: world where
  "w0 = \<lparr>convo = Map.empty, trace = []\<rparr>"


text \<open>
  Environments for the other ways out of a turn: the arguments of the function call do not
  decode; the model elects the function with a \<open>select\<close> statement, which the database
  answers, and the second request to the chat endpoint fails or is answered without
  content; the first answer has neither a function call nor a content.
\<close>

definition env_bad_json :: "(real, int) env" where
  "env_bad_json = env_tool\<lparr>json_loads := (\<lambda>s. Inl (lit ''Expecting value''))\<rparr>"

definition select_args :: jargs where
  "select_args = JDict [lit ''sql'' \<mapsto> JStr (lit ''select * from TSD.SystemLoss'')]"

definition env_followup_down :: "(real, int) env" where
  "env_followup_down =
     env_tool\<lparr>json_loads := (\<lambda>s. Inr select_args),
              chat_create := (\<lambda>msgs declared.
                if declared
                then Inr \<lparr>content = None,
                          function_call =
                            Some \<lparr>fc_name = lit ''execute_sql'', arguments = tool_arguments\<rparr>\<rparr>
                else Inl (lit ''Connection error.''))\<rparr>"

definition env_followup_empty :: "(real, int) env" where
  "env_followup_empty =
     env_tool\<lparr>json_loads := (\<lambda>s. Inr select_args),
              chat_create := (\<lambda>msgs declared.
                if declared
                then Inr \<lparr>content = None,
                          function_call =
                            Some \<lparr>fc_name = lit ''execute_sql'', arguments = tool_arguments\<rparr>\<rparr>
                else Inr \<lparr>content = None, function_call = None\<rparr>)\<rparr>"

definition env_no_content :: "(real, int) env" where
  "env_no_content =
     env_tool\<lparr>chat_create := (\<lambda>msgs declared. Inr \<lparr>content = None, function_call = None\<rparr>)\<rparr>"

section \<open>Properties of the conversation memory\<close>

lemma history_remember:
  "history (remember cv psid r t) u =
     (if psid = u then slice_last (MAX_TURNS * 2) (history cv u @ [\<lparr>role = r, turn_text = t\<rparr>])
      else history cv u)"
  by (simp add: remember_def history_def slice_last_def MAX_TURNS_def Let_def)

lemma slice_last_append_slice:
  "0 < n \<Longrightarrow> slice_last n (slice_last n xs @ ys) = slice_last n (xs @ ys)"
proof (cases "length xs \<le> n")
  case True
  then show ?thesis by (simp add: slice_last_def)
next
  case False
  assume "0 < n"
  obtain m where m: "length xs = n + m"
    using False by (metis le_add_diff_inverse nat_le_linear)
  have "slice_last n xs = drop m xs"
    using \<open>0 < n\<close> m by (simp add: slice_last_def)
  moreover have "slice_last n (drop m xs @ ys)
      = drop (length ys) (drop m xs) @ drop (length ys - n) ys"
    using \<open>0 < n\<close> m by (simp add: slice_last_def)
  moreover have "slice_last n (xs @ ys) = drop (m + length ys) xs @ drop (length ys - n) ys"
    using \<open>0 < n\<close> m by (simp add: slice_last_def add.commute)
  ultimately show ?thesis by (simp add: add.commute)
qed

lemma length_slice_last: "0 < n \<Longrightarrow> length (slice_last n xs) \<le> n"
  by (simp add: slice_last_def)

lemma history_remember_all:
  "history (remember_all cv ops) u =
     (if appended_for u ops = [] then history cv u
      else slice_last (MAX_TURNS * 2) (history cv u @ appended_for u ops))"
proof (induction ops arbitrary: cv)
  case Nil
  show ?case by simp
next
  case (Cons op ops)
  obtain p r t where op: "op = (p, r, t)" by (cases op)
  have pos: "0 < MAX_TURNS * 2" by (simp add: MAX_TURNS_def)
  show ?case
  proof (cases "p = u")
    case True
    show ?thesis
    proof (cases "appended_for u ops = []")
      case True
      with \<open>p = u\<close> show ?thesis
        by (simp add: op Cons.IH history_remember)
    next
      case False
      with \<open>p = u\<close> show ?thesis
        using slice_last_append_slice [OF pos, of "history cv u @ [\<lparr>role = r, turn_text = t\<rparr>]"]
        by (simp add: op Cons.IH history_remember)
    qed
  next
    case False
    then show ?thesis by (simp add: op Cons.IH history_remember)
  qed
qed

text \<open>
  C4. Starting from the empty dict of the module, after any sequence of calls of
  \<open>remember\<close> the list stored for a sender has at most \<open>2 * MAX_TURNS\<close> entries, and
  it is exactly the last \<open>2 * MAX_TURNS\<close> turns appended for that sender, in the order
  in which they were appended: the oldest turns are the ones dropped.
\<close>

theorem remember_bounded_fifo:
  "length (history (remember_all Map.empty ops) u) \<le> 2 * MAX_TURNS
   \<and> history (remember_all Map.empty ops) u = slice_last (2 * MAX_TURNS) (appended_for u ops)
   \<and> slice_last (2 * MAX_TURNS) (appended_for u ops)
       = drop (length (appended_for u ops) - 2 * MAX_TURNS) (appended_for u ops)"
proof -
  have pos: "0 < MAX_TURNS * 2" by (simp add: MAX_TURNS_def)
  have h: "history (remember_all Map.empty ops) u = slice_last (MAX_TURNS * 2) (appended_for u ops)"
    by (simp add: history_remember_all) (simp add: history_def slice_last_def)
  have l: "length (slice_last (MAX_TURNS * 2) (appended_for u ops)) \<le> MAX_TURNS * 2"
    by (rule length_slice_last [OF pos])
  show ?thesis using h l pos by (simp add: mult.commute slice_last_def)
qed

text \<open>
  C9. \<open>reset_memory\<close> is \<open>convo.pop(psid, None)\<close>: with the default given, \<open>pop\<close> has
  no raising path, so the model has no error result. For a sender with no stored history
  it changes nothing; a second call changes nothing more; and the history read after a
  reset (\<open>convo.get(psid, [])\<close>) is empty, the key being absent.
\<close>

theorem reset_memory_idempotent:
  "(cv psid = None \<longrightarrow> reset_memory cv psid = cv)
   \<and> reset_memory (reset_memory cv psid) psid = reset_memory cv psid
   \<and> reset_memory cv psid psid = None
   \<and> history (reset_memory cv psid) psid = []"
  by (auto simp: reset_memory_def history_def)

theorem reset_memory_idempotent_witness:
  "(Map.empty :: store) (lit ''1001'') = None
   \<and> reset_memory Map.empty (lit ''1001'') = Map.empty
   \<and> reset_memory (reset_memory Map.empty (lit ''1001'')) (lit ''1001'')
       = reset_memory Map.empty (lit ''1001'')
   \<and> history (reset_memory Map.empty (lit ''1001'')) (lit ''1001'') = []"
  using reset_memory_idempotent [of Map.empty "lit ''1001''"] by (simp add: history_def)

text \<open>
  C10. The entry of one sender is all that \<open>remember\<close> and \<open>reset_memory\<close> touch: for
  two distinct sender ids \<open>u\<close> and \<open>v\<close>, what the dict holds for \<open>v\<close> (its list of turns,
  or its absence) is the same before and after a call for \<open>u\<close>.
\<close>

theorem store_isolation:
  "u \<noteq> v \<Longrightarrow>
     remember cv u r t v = cv v \<and> reset_memory cv u v = cv v
     \<and> history (remember cv u r t) v = history cv v
     \<and> history (reset_memory cv u) v = history cv v"
  by (simp add: remember_def reset_memory_def history_def Let_def)

theorem store_isolation_witness:
  "lit ''1001'' \<noteq> lit ''1002''
   \<and> remember [lit ''1002'' \<mapsto> [\<lparr>role = lit ''user'', turn_text = lit ''hi''\<rparr>]]
        (lit ''1001'') (lit ''user'') (lit ''hello'') (lit ''1002'')
       = Some [\<lparr>role = lit ''user'', turn_text = lit ''hi''\<rparr>]
   \<and> reset_memory [lit ''1002'' \<mapsto> [\<lparr>role = lit ''user'', turn_text = lit ''hi''\<rparr>]]
        (lit ''1001'') (lit ''1002'')
       = Some [\<lparr>role = lit ''user'', turn_text = lit ''hi''\<rparr>]"
proof -
  have ne: "lit ''1001'' \<noteq> lit ''1002''" by (simp add: lit_def)
  show ?thesis
    using ne store_isolation [OF ne,
        of "[lit ''1002'' \<mapsto> [\<lparr>role = lit ''user'', turn_text = lit ''hi''\<rparr>]]"
           "lit ''user''" "lit ''hello''"]
    by simp
qed

section \<open>Properties of the intent classifier\<close>


lemma py_lower_idem: "py_lower (py_lower s) = py_lower s"
  by (simp add: py_lower_def lower_cp_def)







section \<open>Properties of the safe SQL helper\<close>

lemma execute_sql_rejects:
  "\<not> startswith (py_lower (py_strip sql)) (lit ''select'')
   \<Longrightarrow> execute_sql d sql = ([], Inl (ValueError only_select))"
  by (simp add: execute_sql_def)

lemma execute_sql_no_ValueError:
  "startswith (py_lower (py_strip sql)) (lit ''select'')
   \<Longrightarrow> snd (execute_sql d sql) \<noteq> Inl (ValueError m)"
  by (simp add: execute_sql_def split: option.splits sum.splits)

lemma drop_table_rejected:
  "\<not> startswith (py_lower (py_strip (lit ''DROP TABLE x''))) (lit ''select'')"
  by (simp add: startswith_def py_lower_def py_strip_def is_space_def lower_cp_def lit_def)

lemma insert_rejected:
  "\<not> startswith (py_lower (py_strip (lit ''INSERT INTO x VALUES (1)''))) (lit ''select'')"
  by (simp add: startswith_def py_lower_def py_strip_def is_space_def lower_cp_def lit_def)

lemma select_accepted:
  "startswith (py_lower (py_strip (lit ''  Select * from Foo''))) (lit ''select'')"
  by (simp add: startswith_def py_lower_def py_strip_def is_space_def lower_cp_def lit_def)

text \<open>
  C2. \<open>execute_sql\<close> raises its validation error, the \<open>ValueError\<close> of the source, exactly
  when the statement, stripped of surrounding white space and lowered, does not begin
  with \<open>select\<close>; and then the call causes no database event: no connection is opened.
  \<open>DROP TABLE x\<close> and \<open>INSERT INTO x VALUES (1)\<close> are rejected, whatever the database;
  \<open>  Select * from Foo\<close> passes the validation.
\<close>

theorem execute_sql_validation:
  "((\<exists>m. snd (execute_sql d sql) = Inl (ValueError m))
      \<longleftrightarrow> \<not> prefix (lit ''select'') (py_lower (py_strip sql)))
   \<and> (\<not> prefix (lit ''select'') (py_lower (py_strip sql))
      \<longrightarrow> execute_sql d sql = ([], Inl (ValueError only_select)))
   \<and> execute_sql d (lit ''DROP TABLE x'') = ([], Inl (ValueError only_select))
   \<and> execute_sql d (lit ''INSERT INTO x VALUES (1)'') = ([], Inl (ValueError only_select))
   \<and> (\<forall>m. snd (execute_sql d (lit ''  Select * from Foo'')) \<noteq> Inl (ValueError m))"
proof -
  have 1: "(\<exists>m. snd (execute_sql d sql) = Inl (ValueError m))
      \<longleftrightarrow> \<not> prefix (lit ''select'') (py_lower (py_strip sql))"
    using execute_sql_rejects [of sql d] execute_sql_no_ValueError [of sql d]
    by (auto simp: startswith_def)
  have 2: "\<not> prefix (lit ''select'') (py_lower (py_strip sql))
      \<longrightarrow> execute_sql d sql = ([], Inl (ValueError only_select))"
    using execute_sql_rejects [of sql d] by (simp add: startswith_def)
  have 3: "execute_sql d (lit ''DROP TABLE x'') = ([], Inl (ValueError only_select))"
    by (rule execute_sql_rejects [OF drop_table_rejected])
  have 4: "execute_sql d (lit ''INSERT INTO x VALUES (1)'') = ([], Inl (ValueError only_select))"
    by (rule execute_sql_rejects [OF insert_rejected])
  have 5: "\<forall>m. snd (execute_sql d (lit ''  Select * from Foo'')) \<noteq> Inl (ValueError m)"
    using execute_sql_no_ValueError [OF select_accepted] by blast
  from 1 2 3 4 5 show ?thesis by blast
qed

theorem execute_sql_validation_witness:
  "\<not> prefix (lit ''select'') (py_lower (py_strip (lit ''delete from TSD.SystemLoss'')))
   \<and> execute_sql db_up (lit ''delete from TSD.SystemLoss'') = ([], Inl (ValueError only_select))
   \<and> execute_sql db_up (lit ''  Select * from Foo'')
       = ([Connected, Executed (lit ''  Select * from Foo''), CursorClosed, ConnClosed], Inr [])"
proof -
  have a: "\<not> prefix (lit ''select'') (py_lower (py_strip (lit ''delete from TSD.SystemLoss'')))"
    by (simp add: py_lower_def py_strip_def is_space_def lower_cp_def lit_def)
  have b: "execute_sql db_up (lit ''  Select * from Foo'')
       = ([Connected, Executed (lit ''  Select * from Foo''), CursorClosed, ConnClosed], Inr [])"
    using select_accepted by (simp add: execute_sql_def db_up_def)
  show ?thesis
    using a b execute_sql_validation [of db_up "lit ''delete from TSD.SystemLoss''"]
    by blast
qed

lemma execute_sql_closed_iff:
  "Connected \<in> set (fst (execute_sql d sql))
   \<Longrightarrow> ConnClosed \<in> set (fst (execute_sql d sql)) \<longleftrightarrow> (\<exists>rows. snd (execute_sql d sql) = Inr rows)"
  by (auto simp: execute_sql_def Let_def split: if_splits option.splits sum.splits)

text \<open>
  C6. The claim asks that the connection be closed on every exit path. The source closes
  it (\<open>conn.close()\<close>) after \<open>fetchall\<close> only, with no \<open>try\<close>/\<open>finally\<close> around the
  calls in between: when \<open>cur.execute\<close> raises, as for a \<open>select\<close> from a table that does
  not exist, the call has opened a connection and leaves without closing it.
\<close>

theorem execute_sql_leaves_connection_open:
  "execute_sql db_no_table (lit ''select * from TSD.NoSuchTable'')
     = ([Connected], Inl (External (lit ''Invalid object name'')))
   \<and> Connected \<in> set (fst (execute_sql db_no_table (lit ''select * from TSD.NoSuchTable'')))
   \<and> ConnClosed \<notin> set (fst (execute_sql db_no_table (lit ''select * from TSD.NoSuchTable'')))"
proof -
  have "startswith (py_lower (py_strip (lit ''select * from TSD.NoSuchTable''))) (lit ''select'')"
    by (simp add: startswith_def py_lower_def py_strip_def is_space_def lower_cp_def lit_def)
  then have "execute_sql db_no_table (lit ''select * from TSD.NoSuchTable'')
     = ([Connected], Inl (External (lit ''Invalid object name'')))"
    by (simp add: execute_sql_def db_no_table_def)
  then show ?thesis by simp
qed

section \<open>Properties of the retrieval\<close>






lemma rne_of_int: "rne (of_int n) = n"
  by (simp add: rne_def)



lemma round32_int:
  assumes "\<bar>n\<bar> < 2 ^ 24"
  shows "round32 (of_int n) = of_int n"
proof (cases "n = 0")
  case True
  then show ?thesis by (simp add: round32_def)
next
  case False
  define k where "k = \<lfloor>log 2 \<bar>of_int n :: real\<bar>\<rfloor>"
  have pos: "0 < \<bar>of_int n :: real\<bar>" using False by simp
  have "1 \<le> \<bar>n\<bar>" using False by simp
  then have "(1 :: real) \<le> of_int \<bar>n\<bar>" by (simp only: of_int_1_le_iff)
  then have one: "1 \<le> \<bar>of_int n :: real\<bar>" by simp
  have k0: "0 \<le> k" unfolding k_def using one by (simp add: zero_le_log_cancel_iff)
  have "(of_int \<bar>n\<bar> :: real) < of_int (2 ^ 24)" using assms by (simp only: of_int_less_iff)
  then have lt: "\<bar>of_int n :: real\<bar> < 2 ^ 24" by simp
  have "log 2 \<bar>of_int n :: real\<bar> < 24"
    using lt pos by (simp add: log_less_iff)
  then have k23: "k \<le> 23" unfolding k_def by linarith
  define j where "j = nat (23 - k)"
  have e: "(2 :: real) powr of_int (k - 23) = 1 / 2 ^ j"
  proof (cases "k = 23")
    case True
    then show ?thesis by (simp add: j_def)
  next
    case False
    with k23 have "k - 23 < 0" by simp
    moreover have "nat (- (k - 23)) = j" by (simp add: j_def)
    ultimately show ?thesis
      using powr_real_of_int [of 2 "k - 23"] by (simp add: inverse_eq_divide)
  qed
  have "(of_int n :: real) / (1 / 2 ^ j) = of_int (n * 2 ^ j)"
    by simp
  then have q: "rne (of_int n / (1 / 2 ^ j)) = n * 2 ^ j"
    by (simp only: rne_of_int)
  have "round32 (of_int n)
      = of_int (rne (of_int n / 2 powr of_int (k - 23))) * 2 powr of_int (k - 23)"
    using False by (simp add: round32_def Let_def k_def)
  also have "\<dots> = of_int (n * 2 ^ j) * (1 / 2 ^ j)"
    by (simp only: e q)
  also have "\<dots> = of_int n"
    by simp
  finally show ?thesis .
qed


lemma round32_0: "round32 0 = 0"
  by (simp add: round32_def)

lemma round32_1: "round32 1 = 1"
  using round32_int [of 1] by simp


















lemma top_chunks_kb_two:
  "top_chunks kb_two q 3 = Inr [lit ''System Loss is energy lost in the lines.'']"
  by (simp add: top_chunks_def kb_two_def py_index_def np_dot_def binary32_def
      round32_0 round32_1)




section \<open>Properties of the reply generation\<close>

lemma intent_values:
  "intent m = lit ''cutoff'' \<or> intent m = lit ''billing'' \<or> intent m = lit ''outage''
   \<or> intent m = lit ''general''"
  by (simp add: intent_def Let_def)

lemma general_distinct:
  "lit ''general'' \<noteq> lit ''cutoff''" "lit ''general'' \<noteq> lit ''billing''"
  "lit ''general'' \<noteq> lit ''outage''"
  by (simp_all add: lit_def)

lemma generate_reply_canned:
  assumes "intent m \<noteq> lit ''general''"
  shows "\<exists>reply. generate_reply env w psid m
           = (Inr reply, w\<lparr>convo := remember (convo w) psid (lit ''user'') m\<rparr>)"
  using assms intent_values [of m] by (auto simp: generate_reply_def Let_def)

lemma generate_reply_general:
  assumes "intent m = lit ''general''"
  shows "generate_reply env w psid m =
     (case answer_general env (remember (convo w) psid (lit ''user'') m) psid m of
        (evs, Inl e) \<Rightarrow>
          (Inl e, w\<lparr>convo := remember (convo w) psid (lit ''user'') m, trace := trace w @ evs\<rparr>)
      | (evs, Inr answer) \<Rightarrow>
          (Inr answer,
           w\<lparr>convo := remember (remember (convo w) psid (lit ''user'') m) psid
                         (lit ''assistant'') answer,
             trace := trace w @ evs\<rparr>))"
  using assms general_distinct
  by (simp add: generate_reply_def Let_def split: prod.splits sum.splits)

lemma answer_general_retrieval_error:
  "top_chunks (kbase env) m 3 = Inl e \<Longrightarrow> answer_general env cv psid m = ([], Inl e)"
  by (simp add: answer_general_def)

lemma answer_general_chat_error:
  "top_chunks (kbase env) m 3 = Inr chunks
   \<Longrightarrow> chat_create env (compose cv psid m chunks) True = Inl x
   \<Longrightarrow> answer_general env cv psid m
       = ([ModelRequest (compose cv psid m chunks) True], Inl (External x))"
  by (simp add: answer_general_def Let_def)

lemma answer_general_gateway_error:
  "top_chunks (kbase env) m 3 = Inr chunks
   \<Longrightarrow> chat_create env (compose cv psid m chunks) True = Inr msg
   \<Longrightarrow> function_call msg = Some fc
   \<Longrightarrow> json_loads env (arguments fc) = Inr args
   \<Longrightarrow> call_gateway env args = (dbev, Inl e)
   \<Longrightarrow> answer_general env cv psid m
       = (ModelRequest (compose cv psid m chunks) True # map Db dbev,
          Inr (sql_error_prefix @ py_str e))"
  by (simp add: answer_general_def Let_def)

lemma answer_general_no_call:
  "top_chunks (kbase env) m 3 = Inr chunks
   \<Longrightarrow> chat_create env (compose cv psid m chunks) True = Inr msg
   \<Longrightarrow> function_call msg = None
   \<Longrightarrow> answer_general env cv psid m
       = ([ModelRequest (compose cv psid m chunks) True], content_strip msg)"
  by (simp add: answer_general_def Let_def)

lemma answer_general_json_error:
  "top_chunks (kbase env) m 3 = Inr chunks
   \<Longrightarrow> chat_create env (compose cv psid m chunks) True = Inr msg
   \<Longrightarrow> function_call msg = Some fc
   \<Longrightarrow> json_loads env (arguments fc) = Inl x
   \<Longrightarrow> answer_general env cv psid m
       = ([ModelRequest (compose cv psid m chunks) True], Inl (External x))"
  by (simp add: answer_general_def Let_def)

lemma answer_general_followup_error:
  "top_chunks (kbase env) m 3 = Inr chunks
   \<Longrightarrow> chat_create env (compose cv psid m chunks) True = Inr msg
   \<Longrightarrow> function_call msg = Some fc
   \<Longrightarrow> json_loads env (arguments fc) = Inr args
   \<Longrightarrow> call_gateway env args = (dbev, Inr result)
   \<Longrightarrow> chat_create env
         (compose cv psid m chunks
            @ [CallMsg fc, FunctionMsg (lit ''execute_sql'') (json_dumps env result)]) False
       = Inl x
   \<Longrightarrow> snd (answer_general env cv psid m) = Inl (External x)"
  by (simp add: answer_general_def Let_def)

lemma answer_general_followup:
  "top_chunks (kbase env) m 3 = Inr chunks
   \<Longrightarrow> chat_create env (compose cv psid m chunks) True = Inr msg
   \<Longrightarrow> function_call msg = Some fc
   \<Longrightarrow> json_loads env (arguments fc) = Inr args
   \<Longrightarrow> call_gateway env args = (dbev, Inr result)
   \<Longrightarrow> chat_create env
         (compose cv psid m chunks
            @ [CallMsg fc, FunctionMsg (lit ''execute_sql'') (json_dumps env result)]) False
       = Inr followup
   \<Longrightarrow> snd (answer_general env cv psid m) = content_strip followup"
  by (simp add: answer_general_def Let_def)

lemma content_strip_None:
  "content x = None \<Longrightarrow> \<exists>m. content_strip x = Inl (AttributeError m)"
  by (simp add: content_strip_def)

lemma fst_generate_reply_general:
  assumes "intent m = lit ''general''"
    and "snd (answer_general env (remember (convo w) psid (lit ''user'') m) psid m) = Inl e"
  shows "fst (generate_reply env w psid m) = Inl e"
proof -
  obtain evs r where a: "answer_general env (remember (convo w) psid (lit ''user'') m) psid m
      = (evs, r)"
    by (cases "answer_general env (remember (convo w) psid (lit ''user'') m) psid m")
  with assms(2) have "r = Inl e" by simp
  with a show ?thesis
    by (simp add: generate_reply_general [OF assms(1)])
qed


lemma last_history_remember:
  "last (history (remember cv psid r t) psid) = \<lparr>role = r, turn_text = t\<rparr>"
proof -
  have "slice_last (MAX_TURNS * 2) (xs @ [x]) \<noteq> [] \<and> last (slice_last (MAX_TURNS * 2) (xs @ [x])) = x"
    for xs :: "turn list" and x
    by (simp add: slice_last_def MAX_TURNS_def)
  then show ?thesis by (simp add: history_remember)
qed

lemma intent_balamban: "intent balamban_question = lit ''cutoff''"
  by (simp add: balamban_question_def intent_def cutoff_keywords_def contains_def
      py_lower_def lower_cp_def lit_def sublist_code)

lemma intent_loss: "intent loss_question = lit ''general''"
  by (simp add: loss_question_def intent_def cutoff_keywords_def billing_keywords_def
      outage_keywords_def contains_def py_lower_def lower_cp_def lit_def sublist_code)

lemma remember_first:
  "remember Map.empty psid r t = [psid \<mapsto> [\<lparr>role = r, turn_text = t\<rparr>]]"
  by (simp add: remember_def history_def MAX_TURNS_def)

text \<open>On the path through the model the answer that is returned is the last turn stored.\<close>

lemma general_reply_remembered:
  assumes "intent m = lit ''general''"
    and "generate_reply env w psid m = (Inr answer, w')"
  shows "last (history (convo w') psid) = \<lparr>role = lit ''assistant'', turn_text = answer\<rparr>"
  using assms(2)
  by (auto simp: generate_reply_general [OF assms(1)] last_history_remember
      split: prod.splits sum.splits)

text \<open>
  C5. The claim asks that the answer of every turn be stored, the canned replies
  included. In the source the three canned replies are returned from inside
  \<open>generate_reply\<close>, before the statement \<open>remember(psid, "assistant", answer)\<close> at its
  end is reached: for the question about the cut-off date of Balamban, asked by a sender
  with no history, the reply is the cut-off schedule and the memory of the sender holds
  the user's turn alone.
\<close>

theorem canned_reply_not_remembered:
  "generate_reply env w0 (lit ''1001'') balamban_question
     = (Inr cutoff_reply,
        \<lparr>convo = [lit ''1001'' \<mapsto> [\<lparr>role = lit ''user'', turn_text = balamban_question\<rparr>]],
         trace = []\<rparr>)
   \<and> history (convo (snd (generate_reply env w0 (lit ''1001'') balamban_question))) (lit ''1001'')
       = [\<lparr>role = lit ''user'', turn_text = balamban_question\<rparr>]"
  by (simp add: generate_reply_def Let_def intent_balamban w0_def remember_first history_def)

text \<open>
  C7, as the claim states it, fails: with the embedding endpoint unreachable, a message
  with no keyword makes \<open>generate_reply\<close> raise the exception of the endpoint.
\<close>

theorem retrieval_failure_propagates:
  "fst (generate_reply env_embed_down w0 (lit ''1001'') loss_question)
     = Inl (External (lit ''Connection error.''))"
proof -
  have "top_chunks (kbase env_embed_down) loss_question 3 = Inl (External (lit ''Connection error.''))"
    by (simp add: env_embed_down_def top_chunks_def)
  then show ?thesis
    by (simp add: generate_reply_general [OF intent_loss] answer_general_retrieval_error)
qed

text \<open>
  C7, amended. Inside \<open>generate_reply\<close> the only \<open>try\<close> encloses the Gateway call: an
  exception raised by it becomes the text of the reply. Every other failure of a turn
  that is not answered by a canned reply leaves \<open>generate_reply\<close> as an exception: a
  failure of the retrieval (\<open>top_chunks\<close>), which is not treated as "no grounding" (the
  user message is stored and no request is sent to the model); a failure of the first
  request to the model; a first answer with neither function call nor content; arguments
  of the function call that \<open>json.loads\<close> cannot decode; and, after a Gateway call that
  succeeded, a failure of the second request to the model or a second answer without
  content.
\<close>

theorem generate_reply_error_paths:
  "(intent user_msg = lit ''general'' \<and> top_chunks (kbase env) user_msg 3 = Inl e
      \<longrightarrow> generate_reply env w psid user_msg
          = (Inl e, w\<lparr>convo := remember (convo w) psid (lit ''user'') user_msg\<rparr>))
   \<and> (intent user_msg = lit ''general'' \<and> top_chunks (kbase env) user_msg 3 = Inr chunks
       \<and> messages
           = compose (remember (convo w) psid (lit ''user'') user_msg) psid user_msg chunks
       \<longrightarrow>
       (chat_create env messages True = Inl x
          \<longrightarrow> fst (generate_reply env w psid user_msg) = Inl (External x))
       \<and> (chat_create env messages True = Inr msg \<and> function_call msg = None
            \<and> content msg = None
          \<longrightarrow> (\<exists>m. fst (generate_reply env w psid user_msg) = Inl (AttributeError m)))
       \<and> (chat_create env messages True = Inr msg \<and> function_call msg = Some fc
          \<longrightarrow>
          (json_loads env (arguments fc) = Inl x
             \<longrightarrow> fst (generate_reply env w psid user_msg) = Inl (External x))
          \<and> (json_loads env (arguments fc) = Inr args
             \<longrightarrow>
             (call_gateway env args = (dbev, Inl e')
                \<longrightarrow> fst (generate_reply env w psid user_msg)
                    = Inr (sql_error_prefix @ py_str e'))
             \<and> (call_gateway env args = (dbev, Inr result)
                  \<and> messages2
                      = messages
                        @ [CallMsg fc,
                           FunctionMsg (lit ''execute_sql'') (json_dumps env result)]
                \<longrightarrow>
                (chat_create env messages2 False = Inl x
                   \<longrightarrow> fst (generate_reply env w psid user_msg) = Inl (External x))
                \<and> (chat_create env messages2 False = Inr followup
                     \<and> content followup = None
                   \<longrightarrow> (\<exists>m. fst (generate_reply env w psid user_msg)
                            = Inl (AttributeError m)))))))"
proof (intro conjI impI; (elim conjE)?)
  assume "intent user_msg = lit ''general''" "top_chunks (kbase env) user_msg 3 = Inl e"
  then show "generate_reply env w psid user_msg
          = (Inl e, w\<lparr>convo := remember (convo w) psid (lit ''user'') user_msg\<rparr>)"
    by (simp add: generate_reply_general answer_general_retrieval_error)
next
  assume g: "intent user_msg = lit ''general''"
    and c: "top_chunks (kbase env) user_msg 3 = Inr chunks"
    and m: "messages
           = compose (remember (convo w) psid (lit ''user'') user_msg) psid user_msg chunks"
    and 1: "chat_create env messages True = Inl x"
  from answer_general_chat_error [OF c 1 [unfolded m]]
  show "fst (generate_reply env w psid user_msg) = Inl (External x)"
    by (intro fst_generate_reply_general [OF g]) simp
next
  assume g: "intent user_msg = lit ''general''"
    and c: "top_chunks (kbase env) user_msg 3 = Inr chunks"
    and m: "messages
           = compose (remember (convo w) psid (lit ''user'') user_msg) psid user_msg chunks"
    and 1: "chat_create env messages True = Inr msg"
    and 2: "function_call msg = None" and 3: "content msg = None"
  from content_strip_None [OF 3] obtain a where "content_strip msg = Inl (AttributeError a)"
    by blast
  with answer_general_no_call [OF c 1 [unfolded m] 2]
  have "fst (generate_reply env w psid user_msg) = Inl (AttributeError a)"
    by (intro fst_generate_reply_general [OF g]) simp
  then show "\<exists>m. fst (generate_reply env w psid user_msg) = Inl (AttributeError m)"
    by blast
next
  assume g: "intent user_msg = lit ''general''"
    and c: "top_chunks (kbase env) user_msg 3 = Inr chunks"
    and m: "messages
           = compose (remember (convo w) psid (lit ''user'') user_msg) psid user_msg chunks"
    and 1: "chat_create env messages True = Inr msg"
    and 2: "function_call msg = Some fc"
    and 3: "json_loads env (arguments fc) = Inl x"
  from answer_general_json_error [OF c 1 [unfolded m] 2 3]
  show "fst (generate_reply env w psid user_msg) = Inl (External x)"
    by (intro fst_generate_reply_general [OF g]) simp
next
  assume g: "intent user_msg = lit ''general''"
    and c: "top_chunks (kbase env) user_msg 3 = Inr chunks"
    and m: "messages
           = compose (remember (convo w) psid (lit ''user'') user_msg) psid user_msg chunks"
    and 1: "chat_create env messages True = Inr msg"
    and 2: "function_call msg = Some fc"
    and 3: "json_loads env (arguments fc) = Inr args"
    and 4: "call_gateway env args = (dbev, Inl e')"
  from answer_general_gateway_error [OF c 1 [unfolded m] 2 3 4]
  show "fst (generate_reply env w psid user_msg) = Inr (sql_error_prefix @ py_str e')"
    by (simp add: generate_reply_general [OF g])
next
  assume g: "intent user_msg = lit ''general''"
    and c: "top_chunks (kbase env) user_msg 3 = Inr chunks"
    and m: "messages
           = compose (remember (convo w) psid (lit ''user'') user_msg) psid user_msg chunks"
    and 1: "chat_create env messages True = Inr msg"
    and 2: "function_call msg = Some fc"
    and 3: "json_loads env (arguments fc) = Inr args"
    and 4: "call_gateway env args = (dbev, Inr result)"
    and m2: "messages2
        = messages @ [CallMsg fc, FunctionMsg (lit ''execute_sql'') (json_dumps env result)]"
    and 5: "chat_create env messages2 False = Inl x"
  from answer_general_followup_error [OF c 1 [unfolded m] 2 3 4 5 [unfolded m2 m]]
  show "fst (generate_reply env w psid user_msg) = Inl (External x)"
    by (rule fst_generate_reply_general [OF g])
next
  assume g: "intent user_msg = lit ''general''"
    and c: "top_chunks (kbase env) user_msg 3 = Inr chunks"
    and m: "messages
           = compose (remember (convo w) psid (lit ''user'') user_msg) psid user_msg chunks"
    and 1: "chat_create env messages True = Inr msg"
    and 2: "function_call msg = Some fc"
    and 3: "json_loads env (arguments fc) = Inr args"
    and 4: "call_gateway env args = (dbev, Inr result)"
    and m2: "messages2
        = messages @ [CallMsg fc, FunctionMsg (lit ''execute_sql'') (json_dumps env result)]"
    and 5: "chat_create env messages2 False = Inr followup"
    and 6: "content followup = None"
  from content_strip_None [OF 6] obtain a
    where "content_strip followup = Inl (AttributeError a)"
    by blast
  with answer_general_followup [OF c 1 [unfolded m] 2 3 4 5 [unfolded m2 m]]
  have "fst (generate_reply env w psid user_msg) = Inl (AttributeError a)"
    by (intro fst_generate_reply_general [OF g]) simp
  then show "\<exists>m. fst (generate_reply env w psid user_msg) = Inl (AttributeError m)"
    by blast
qed

lemma call_gateway_env_tool:
  "call_gateway env_tool (JDict [lit ''sql'' \<mapsto> JStr (lit ''delete from TSD.SystemLoss'')])
     = ([], Inl (ValueError only_select))"
proof -
  have "\<not> startswith (py_lower (py_strip (lit ''delete from TSD.SystemLoss''))) (lit ''select'')"
    by (simp add: startswith_def py_lower_def py_strip_def is_space_def lower_cp_def lit_def)
  then show ?thesis
    by (simp add: call_gateway_def execute_sql_rejects)
qed

lemma execute_sql_db_up_select:
  "execute_sql db_up (lit ''select * from TSD.SystemLoss'')
     = ([Connected, Executed (lit ''select * from TSD.SystemLoss''), CursorClosed, ConnClosed],
        Inr [])"
proof -
  have "startswith (py_lower (py_strip (lit ''select * from TSD.SystemLoss''))) (lit ''select'')"
    by (simp add: startswith_def py_lower_def py_strip_def is_space_def lower_cp_def lit_def)
  then show ?thesis
    by (simp add: execute_sql_def db_up_def)
qed

lemma call_gateway_select:
  "database env = db_up \<Longrightarrow>
   call_gateway env select_args
     = ([Connected, Executed (lit ''select * from TSD.SystemLoss''), CursorClosed, ConnClosed],
        Inr [])"
  by (simp add: call_gateway_def select_args_def execute_sql_db_up_select)

theorem generate_reply_error_paths_witness:
  "generate_reply env_embed_down w0 (lit ''1001'') loss_question
     = (Inl (External (lit ''Connection error.'')),
        w0\<lparr>convo := remember (convo w0) (lit ''1001'') (lit ''user'') loss_question\<rparr>)
   \<and> fst (generate_reply env_chat_down w0 (lit ''1001'') loss_question)
       = Inl (External (lit ''Connection error.''))
   \<and> (\<exists>m. fst (generate_reply env_no_content w0 (lit ''1001'') loss_question)
         = Inl (AttributeError m))
   \<and> fst (generate_reply env_bad_json w0 (lit ''1001'') loss_question)
       = Inl (External (lit ''Expecting value''))
   \<and> fst (generate_reply env_tool w0 (lit ''1001'') loss_question)
       = Inr (sql_error_prefix @ only_select)
   \<and> fst (generate_reply env_followup_down w0 (lit ''1001'') loss_question)
       = Inl (External (lit ''Connection error.''))
   \<and> (\<exists>m. fst (generate_reply env_followup_empty w0 (lit ''1001'') loss_question)
         = Inl (AttributeError m))"
proof -
  let ?chunks = "[lit ''System Loss is energy lost in the lines.'']"
  let ?fc = "\<lparr>fc_name = lit ''execute_sql'', arguments = tool_arguments\<rparr>"
  let ?call = "\<lparr>content = None, function_call = Some ?fc\<rparr>"
  let ?none = "\<lparr>content = None, function_call = None\<rparr>"
  let ?args = "JDict [lit ''sql'' \<mapsto> JStr (lit ''delete from TSD.SystemLoss'')]"
  let ?dbev = "[Connected, Executed (lit ''select * from TSD.SystemLoss''), CursorClosed,
      ConnClosed]"
  have A: "generate_reply env_embed_down w0 (lit ''1001'') loss_question
     = (Inl (External (lit ''Connection error.'')),
        w0\<lparr>convo := remember (convo w0) (lit ''1001'') (lit ''user'') loss_question\<rparr>)"
  proof -
    have "top_chunks (kbase env_embed_down) loss_question 3
        = Inl (External (lit ''Connection error.''))"
      by (simp add: env_embed_down_def top_chunks_def)
    with intent_loss show ?thesis
      using generate_reply_error_paths [where user_msg = loss_question
          and env = env_embed_down and w = w0 and psid = "lit ''1001''"
          and e = "External (lit ''Connection error.'')"]
      by blast
  qed
  have B: "fst (generate_reply env_chat_down w0 (lit ''1001'') loss_question)
       = Inl (External (lit ''Connection error.''))"
  proof -
    have "top_chunks (kbase env_chat_down) loss_question 3 = Inr ?chunks"
      by (simp add: env_chat_down_def env_tool_def top_chunks_kb_two)
    moreover have "chat_create env_chat_down msgs True = Inl (lit ''Connection error.'')"
      for msgs
      by (simp add: env_chat_down_def)
    ultimately show ?thesis
      using intent_loss generate_reply_error_paths [where user_msg = loss_question
          and env = env_chat_down and w = w0 and psid = "lit ''1001''" and chunks = ?chunks
          and x = "lit ''Connection error.''"]
      by blast
  qed
  have C: "\<exists>m. fst (generate_reply env_no_content w0 (lit ''1001'') loss_question)
         = Inl (AttributeError m)"
  proof -
    have "top_chunks (kbase env_no_content) loss_question 3 = Inr ?chunks"
      by (simp add: env_no_content_def env_tool_def top_chunks_kb_two)
    moreover have "chat_create env_no_content msgs True = Inr ?none" for msgs
      by (simp add: env_no_content_def)
    moreover have "function_call ?none = None" "content ?none = None"
      by simp_all
    ultimately show ?thesis
      using intent_loss generate_reply_error_paths [where user_msg = loss_question
          and env = env_no_content and w = w0 and psid = "lit ''1001''" and chunks = ?chunks
          and msg = ?none]
      by blast
  qed
  have D: "fst (generate_reply env_bad_json w0 (lit ''1001'') loss_question)
       = Inl (External (lit ''Expecting value''))"
  proof -
    have "top_chunks (kbase env_bad_json) loss_question 3 = Inr ?chunks"
      by (simp add: env_bad_json_def env_tool_def top_chunks_kb_two)
    moreover have "chat_create env_bad_json msgs True = Inr ?call" for msgs
      by (simp add: env_bad_json_def env_tool_def)
    moreover have "function_call ?call = Some ?fc"
      by simp
    moreover have "json_loads env_bad_json (arguments ?fc) = Inl (lit ''Expecting value'')"
      by (simp add: env_bad_json_def)
    ultimately show ?thesis
      using intent_loss generate_reply_error_paths [where user_msg = loss_question
          and env = env_bad_json and w = w0 and psid = "lit ''1001''" and chunks = ?chunks
          and msg = ?call and fc = ?fc and x = "lit ''Expecting value''"]
      by blast
  qed
  have E: "fst (generate_reply env_tool w0 (lit ''1001'') loss_question)
       = Inr (sql_error_prefix @ only_select)"
  proof -
    have "top_chunks (kbase env_tool) loss_question 3 = Inr ?chunks"
      by (simp add: env_tool_def top_chunks_kb_two)
    moreover have "chat_create env_tool msgs True = Inr ?call" for msgs
      by (simp add: env_tool_def)
    moreover have "function_call ?call = Some ?fc"
      by simp
    moreover have "json_loads env_tool (arguments ?fc) = Inr ?args"
      by (simp add: env_tool_def)
    ultimately have "fst (generate_reply env_tool w0 (lit ''1001'') loss_question)
        = Inr (sql_error_prefix @ py_str (ValueError only_select))"
      using intent_loss call_gateway_env_tool
        generate_reply_error_paths [where user_msg = loss_question
          and env = env_tool and w = w0 and psid = "lit ''1001''" and chunks = ?chunks
          and msg = ?call and fc = ?fc and args = ?args and dbev = "[]"
          and e' = "ValueError only_select"]
      by blast
    then show ?thesis by simp
  qed
  have F: "fst (generate_reply env_followup_down w0 (lit ''1001'') loss_question)
       = Inl (External (lit ''Connection error.''))"
  proof -
    have "top_chunks (kbase env_followup_down) loss_question 3 = Inr ?chunks"
      by (simp add: env_followup_down_def env_tool_def top_chunks_kb_two)
    moreover have "chat_create env_followup_down msgs True = Inr ?call" for msgs
      by (simp add: env_followup_down_def)
    moreover have "function_call ?call = Some ?fc"
      by simp
    moreover have "json_loads env_followup_down (arguments ?fc) = Inr select_args"
      by (simp add: env_followup_down_def)
    moreover have "call_gateway env_followup_down select_args = (?dbev, Inr [])"
      by (rule call_gateway_select) (simp add: env_followup_down_def env_tool_def)
    moreover have "chat_create env_followup_down msgs False = Inl (lit ''Connection error.'')"
      for msgs
      by (simp add: env_followup_down_def)
    ultimately show ?thesis
      using intent_loss generate_reply_error_paths [where user_msg = loss_question
          and env = env_followup_down and w = w0 and psid = "lit ''1001''"
          and chunks = ?chunks and msg = ?call and fc = ?fc and args = select_args
          and dbev = ?dbev and result = "[]" and x = "lit ''Connection error.''"]
      by blast
  qed
  have G: "\<exists>m. fst (generate_reply env_followup_empty w0 (lit ''1001'') loss_question)
         = Inl (AttributeError m)"
  proof -
    have "top_chunks (kbase env_followup_empty) loss_question 3 = Inr ?chunks"
      by (simp add: env_followup_empty_def env_tool_def top_chunks_kb_two)
    moreover have "chat_create env_followup_empty msgs True = Inr ?call" for msgs
      by (simp add: env_followup_empty_def)
    moreover have "function_call ?call = Some ?fc"
      by simp
    moreover have "json_loads env_followup_empty (arguments ?fc) = Inr select_args"
      by (simp add: env_followup_empty_def)
    moreover have "call_gateway env_followup_empty select_args = (?dbev, Inr [])"
      by (rule call_gateway_select) (simp add: env_followup_empty_def env_tool_def)
    moreover have "chat_create env_followup_empty msgs False = Inr ?none" for msgs
      by (simp add: env_followup_empty_def)
    moreover have "content ?none = None"
      by simp
    ultimately show ?thesis
      using intent_loss generate_reply_error_paths [where user_msg = loss_question
          and env = env_followup_empty and w = w0 and psid = "lit ''1001''"
          and chunks = ?chunks and msg = ?call and fc = ?fc and args = select_args
          and dbev = ?dbev and result = "[]" and followup = ?none]
      by blast
  qed
  from A B C D E F G show ?thesis by blast
qed



end
